theory Spec2Isabelle
  imports Main "HOL-Library.Sublist"
begin

section \<open>The retrieval-augmented answering pipeline of rag_system_openrouter.py\<close>

text \<open>
  The development embeds the class \<open>RadixRAGSystemOpenRouter\<close>: its constructor, the
  document loader, the set-up of the vector store and of the QA chain, and \<open>ask\<close>.
  Printing is left out. A Python \<open>str\<close> is a \<open>string\<close>: one \<open>char\<close> stands for one
  character of the Python string, and the paths and the metadata values of the model
  are ASCII text. The calls into langchain and Chroma are parameters of the model
  (the record \<open>environment\<close>).
\<close>

subsection \<open>Data\<close>

text \<open>langchain's \<open>Document\<close>: the text and the metadata dictionary.\<close>

record document =
  page_content :: string
  metadata :: "string \<rightharpoonup> string"

text \<open>
  The exceptions the code raises itself (\<open>FileNotFoundError\<close>, \<open>sys.exit(1)\<close>,
  \<open>RuntimeError\<close>), the two it can raise by a failed lookup (\<open>KeyError\<close> of
  \<open>doc.metadata['source']\<close>, \<open>AttributeError\<close> of \<open>self.vectorstore.as_retriever\<close> on
  \<open>None\<close>), and an exception coming out of a library call.
\<close>

datatype error =
    FileNotFoundError string
  | SystemExit int
  | RuntimeError string
  | KeyError string
  | AttributeError string
  | LibraryError string

text \<open>The dictionary the QA chain returns, and the two dictionaries \<open>ask\<close> builds.\<close>

record qa_result =
  result :: string
  source_documents :: "document list"

record source_info =
  filename :: string
  file_type :: string
  content_type :: string
  snippet :: string

record response =
  question :: string
  answer :: string
  sources :: "source_info list"

text \<open>
  The object: the fields \<open>__init__\<close> sets. \<open>vectorstore\<close> and \<open>qa_chain\<close> start as
  \<open>None\<close>. The chain is a callable from the query to its result, or to the exception
  it raises.
\<close>

record 'vs rag_system =
  kb_path :: string
  persist_dir :: string
  model_name :: string
  vectorstore :: "'vs option"
  qa_chain :: "(string \<Rightarrow> error + qa_result) option"

text \<open>
  What the code reads from outside and the library calls it makes:
  \<^item> \<open>exists_path\<close>: \<open>Path.exists\<close> and \<open>os.path.exists\<close>;
  \<^item> \<open>getenv\<close>: \<open>os.getenv\<close>;
  \<^item> \<open>directory_load root glob\<close>: \<open>DirectoryLoader(root, glob=glob, ...).load()\<close>;
  \<^item> \<open>split_documents chunk_size chunk_overlap separators docs\<close>:
    \<open>RecursiveCharacterTextSplitter(...).split_documents(docs)\<close>;
  \<^item> \<open>chroma_open dir\<close>: \<open>Chroma(persist_directory=dir, embedding_function=embeddings)\<close>;
  \<^item> \<open>chroma_from_documents splits dir\<close>: \<open>Chroma.from_documents(...)\<close>, the call
    that embeds the chunks;
  \<^item> \<open>retrieval_qa model k store\<close>: the chain \<open>RetrievalQA.from_chain_type\<close> returns
    for the model, the retrieval depth and the store.
  A directory load and a call of the chain may raise; the other library calls are
  taken to return.
\<close>

record 'vs environment =
  exists_path :: "string \<Rightarrow> bool"
  getenv :: "string \<Rightarrow> string option"
  directory_load :: "string \<Rightarrow> string \<Rightarrow> error + document list"
  split_documents :: "nat \<Rightarrow> nat \<Rightarrow> string list \<Rightarrow> document list \<Rightarrow> document list"
  chroma_open :: "string \<Rightarrow> 'vs"
  chroma_from_documents :: "document list \<Rightarrow> string \<Rightarrow> 'vs"
  retrieval_qa :: "string \<Rightarrow> nat \<Rightarrow> 'vs \<Rightarrow> string \<Rightarrow> error + qa_result"

text \<open>The calls on the vector store that a run makes, in order.\<close>

datatype store_call =
    ChromaInit string
  | ChromaFromDocuments "document list" string
  | ChromaPersist

subsection \<open>ask\<close>

text \<open>\<open>d.get(key, default)\<close>.\<close>

definition dict_get :: "('k \<rightharpoonup> 'v) \<Rightarrow> 'k \<Rightarrow> 'v \<Rightarrow> 'v" where
  "dict_get d k dflt = (case d k of None \<Rightarrow> dflt | Some v \<Rightarrow> v)"

text \<open>The dictionary built in the body of the loop over \<open>result["source_documents"]\<close>.\<close>

definition make_source_info :: "document \<Rightarrow> source_info" where
  "make_source_info doc =
     \<lparr> filename = dict_get (metadata doc) ''filename'' ''Unknown'',
       file_type = dict_get (metadata doc) ''file_type'' ''Unknown'',
       content_type = dict_get (metadata doc) ''content_type'' ''Unknown'',
       snippet = (if length (page_content doc) > 200
                  then take 200 (page_content doc) @ ''...''
                  else page_content doc) \<rparr>"

text \<open>The loop: each pass appends one dictionary to \<open>response["sources"]\<close>.\<close>

fun add_sources :: "response \<Rightarrow> document list \<Rightarrow> response" where
  "add_sources resp [] = resp"
| "add_sources resp (doc # docs) =
     add_sources (resp\<lparr>sources := sources resp @ [make_source_info doc]\<rparr>) docs"

definition ask :: "'vs rag_system \<Rightarrow> string \<Rightarrow> error + response" where
  "ask self q =
     (case qa_chain self of
        None \<Rightarrow> Inl (RuntimeError ''QA chain not initialized'')
      | Some chain \<Rightarrow>
          (case chain q of
             Inl e \<Rightarrow> Inl e
           | Inr res \<Rightarrow>
               Inr (add_sources \<lparr> question = q, answer = result res, sources = [] \<rparr>
                      (source_documents res))))"

subsection \<open>Paths and strings\<close>

text \<open>\<open>str.lower()\<close> on ASCII text.\<close>

definition lower_char :: "char \<Rightarrow> char" where
  "lower_char c =
     (case map_of (zip ''ABCDEFGHIJKLMNOPQRSTUVWXYZ'' ''abcdefghijklmnopqrstuvwxyz'') c of
        None \<Rightarrow> c
      | Some l \<Rightarrow> l)"

definition lower :: "string \<Rightarrow> string" where
  "lower s = map lower_char s"

text \<open>\<open>needle in hay\<close> on strings: \<open>needle\<close> occurs in \<open>hay\<close> as a contiguous run.\<close>

fun str_contains :: "string \<Rightarrow> string \<Rightarrow> bool" where
  "str_contains needle [] = (needle = [])"
| "str_contains needle (c # cs) = (prefix needle (c # cs) \<or> str_contains needle cs)"

text \<open>
  \<open>Path.name\<close>, \<open>Path.parent\<close> and \<open>Path.suffix\<close> of a path given by its string.
  The string is the one \<open>str(file_path)\<close> returns: components joined by single
  slashes, no trailing slash. \<open>suffix\<close> is \<open>name[i:]\<close> for \<open>i = name.rfind('.')\<close> when
  \<open>0 < i < len(name) - 1\<close>, and the empty string otherwise.
\<close>

definition path_name :: "string \<Rightarrow> string" where
  "path_name p = rev (takeWhile (\<lambda>c. c \<noteq> CHR ''/'') (rev p))"

definition path_parent :: "string \<Rightarrow> string" where
  "path_parent p = rev (drop 1 (dropWhile (\<lambda>c. c \<noteq> CHR ''/'') (rev p)))"

definition path_suffix :: "string \<Rightarrow> string" where
  "path_suffix p =
     (let name = path_name p;
          ext = rev (takeWhile (\<lambda>c. c \<noteq> CHR ''.'') (rev name))
      in if CHR ''.'' \<in> set name \<and> length ext + 1 < length name \<and> ext \<noteq> []
         then CHR ''.'' # ext
         else [])"

subsection \<open>load_documents\<close>

text \<open>The \<open>if\<close>/\<open>elif\<close> chain that chooses \<open>doc.metadata['content_type']\<close>.\<close>

definition content_type_of :: "string \<Rightarrow> string" where
  "content_type_of file_path =
     (if str_contains ''example'' (lower file_path) then ''example''
      else if str_contains ''src'' (lower file_path) then ''source''
      else if path_suffix file_path = ''.md'' then ''documentation''
      else ''code'')"

text \<open>
  The body of the loop over \<open>all_docs\<close>. \<open>doc.metadata['source']\<close> raises \<open>KeyError\<close>
  when the loader set no source.
\<close>

definition add_metadata :: "document \<Rightarrow> error + document" where
  "add_metadata doc =
     (case metadata doc ''source'' of
        None \<Rightarrow> Inl (KeyError ''source'')
      | Some file_path \<Rightarrow>
          Inr (doc\<lparr>metadata := (metadata doc)
                 (''file_type'' \<mapsto> path_suffix file_path,
                  ''filename'' \<mapsto> path_name file_path,
                  ''directory'' \<mapsto> path_name (path_parent file_path),
                  ''content_type'' \<mapsto> content_type_of file_path)\<rparr>))"

fun add_metadata_all :: "document list \<Rightarrow> error + document list" where
  "add_metadata_all [] = Inr []"
| "add_metadata_all (doc # docs) =
     (case add_metadata doc of
        Inl e \<Rightarrow> Inl e
      | Inr doc' \<Rightarrow>
          (case add_metadata_all docs of
             Inl e \<Rightarrow> Inl e
           | Inr docs' \<Rightarrow> Inr (doc' # docs')))"

text \<open>Each of the two loads sits in a \<open>try\<close> whose handler takes the empty list.\<close>

definition load_documents :: "'vs environment \<Rightarrow> 'vs rag_system \<Rightarrow> error + document list" where
  "load_documents env self =
     (let md_docs = (case directory_load env (kb_path self) ''**/*.md'' of
                       Inl e \<Rightarrow> []
                     | Inr ds \<Rightarrow> ds);
          rs_docs = (case directory_load env (kb_path self) ''**/*.rs'' of
                       Inl e \<Rightarrow> []
                     | Inr ds \<Rightarrow> ds);
          all_docs = md_docs @ rs_docs
      in add_metadata_all all_docs)"

subsection \<open>setup_vectorstore, setup_qa_chain and the constructor\<close>

text \<open>The line feed, of which the first two separators are made.\<close>

definition newline :: string where
  "newline = [CHR 0x0A]"

text \<open>
  The result is the object with \<open>vectorstore\<close> set, or the exception, together with
  the calls made on the vector store. The \<open>count\<close> in the first branch is only printed.
\<close>

definition setup_vectorstore ::
  "'vs environment \<Rightarrow> 'vs rag_system \<Rightarrow> (error + 'vs rag_system) \<times> store_call list" where
  "setup_vectorstore env self =
     (if exists_path env (persist_dir self) then
        (Inr (self\<lparr>vectorstore := Some (chroma_open env (persist_dir self))\<rparr>),
         [ChromaInit (persist_dir self)])
      else
        (case load_documents env self of
           Inl e \<Rightarrow> (Inl e, [])
         | Inr documents \<Rightarrow>
             if documents = [] then
               (Inl (RuntimeError ''No documents found to process!''), [])
             else
               (let splits = split_documents env 1000 200
                               [newline @ newline, newline, '' '', []] documents
                in (Inr (self\<lparr>vectorstore :=
                           Some (chroma_from_documents env splits (persist_dir self))\<rparr>),
                    [ChromaFromDocuments splits (persist_dir self), ChromaPersist]))))"

text \<open>
  \<open>self.vectorstore.as_retriever\<close> raises \<open>AttributeError\<close> on \<open>None\<close>; the retrieval depth
  is the constant 6.
\<close>

definition setup_qa_chain :: "'vs environment \<Rightarrow> 'vs rag_system \<Rightarrow> error + 'vs rag_system" where
  "setup_qa_chain env self =
     (case vectorstore self of
        None \<Rightarrow> Inl (AttributeError ''as_retriever'')
      | Some store \<Rightarrow>
          Inr (self\<lparr>qa_chain := Some (retrieval_qa env (model_name self) 6 store)\<rparr>))"

text \<open>The object as the first lines of \<open>__init__\<close> leave it.\<close>

definition new_object :: "string \<Rightarrow> string \<Rightarrow> string \<Rightarrow> 'vs rag_system" where
  "new_object knowledge_base_path persist_directory name =
     \<lparr> kb_path = knowledge_base_path, persist_dir = persist_directory,
       model_name = name, vectorstore = None, qa_chain = None \<rparr>"

text \<open>
  \<open>__init__\<close>. \<open>not os.getenv(...)\<close> holds for an unset variable and for an empty one.
\<close>

definition RadixRAGSystemOpenRouter_init ::
  "'vs environment \<Rightarrow> string \<Rightarrow> string \<Rightarrow> string
     \<Rightarrow> (error + 'vs rag_system) \<times> store_call list" where
  "RadixRAGSystemOpenRouter_init env knowledge_base_path persist_directory name =
     (let self = new_object knowledge_base_path persist_directory name
      in if \<not> exists_path env (kb_path self) then
           (Inl (FileNotFoundError (''Knowledge base not found at '' @ knowledge_base_path)), [])
         else if (case getenv env ''OPENROUTER_API_KEY'' of None \<Rightarrow> True | Some v \<Rightarrow> v = []) then
           (Inl (SystemExit 1), [])
         else
           (case setup_vectorstore env self of
              (Inl e, calls) \<Rightarrow> (Inl e, calls)
            | (Inr self', calls) \<Rightarrow> (setup_qa_chain env self', calls)))"

subsection \<open>The loader's precedence in the words of the specification\<close>

text \<open>
  The segments of a path are the pieces between its slashes. The specification gives
  the category by segments: an \<open>examples\<close> segment, then a \<open>src\<close> segment, then the
  markdown extension.
\<close>

fun split_on :: "'a \<Rightarrow> 'a list \<Rightarrow> 'a list list" where
  "split_on sep [] = [] # []"
| "split_on sep (c # cs) =
     (if c = sep then [] # split_on sep cs
      else (case split_on sep cs of
              [] \<Rightarrow> [c] # []
            | seg # segs \<Rightarrow> (c # seg) # segs))"

definition spec_path_segments :: "string \<Rightarrow> string list" where
  "spec_path_segments p = split_on (CHR ''/'') p"

definition spec_content_category :: "string \<Rightarrow> string" where
  "spec_content_category p =
     (if ''examples'' \<in> set (spec_path_segments p) then ''example''
      else if ''src'' \<in> set (spec_path_segments p) then ''source''
      else if suffix ''.md'' p then ''documentation''
      else ''code'')"

subsection \<open>Concrete runs\<close>

text \<open>
  A small world: the paths that exist, the value of the API key, the markdown files
  under the knowledge base and the chunks of the persisted store. A store is the list
  of its chunks; the splitter leaves these short documents whole; the chain answers
  with the first \<open>k\<close> chunks of the store.
\<close>

definition demo_env ::
  "string list \<Rightarrow> string option \<Rightarrow> document list \<Rightarrow> document list
     \<Rightarrow> (document list) environment" where
  "demo_env paths key md_files persisted =
     \<lparr> exists_path = (\<lambda>p. p \<in> set paths),
       getenv = (\<lambda>name. if name = ''OPENROUTER_API_KEY'' then key else None),
       directory_load = (\<lambda>root glob. if glob = ''**/*.md'' then Inr md_files else Inr []),
       split_documents = (\<lambda>chunk_size chunk_overlap separators docs. docs),
       chroma_open = (\<lambda>dir. persisted),
       chroma_from_documents = (\<lambda>splits dir. splits),
       retrieval_qa = (\<lambda>model k store q.
          Inr \<lparr> result = ''See the context.'', source_documents = take k store \<rparr>) \<rparr>"

definition token_doc :: document where
  "token_doc =
     \<lparr> page_content = ''A blueprint is declared with a module containing a struct and an impl block.'',
       metadata = [''source'' \<mapsto> ''kb/cleaned/docs/example_token.md''] \<rparr>"

definition readme_doc :: document where
  "readme_doc =
     \<lparr> page_content = ''Examples of blueprints.'',
       metadata = [''source'' \<mapsto> ''kb/cleaned/examples/src/README.md''] \<rparr>"

definition prelude_chunk :: document where
  "prelude_chunk =
     \<lparr> page_content = ''use scrypto::prelude::*;'',
       metadata = [''filename'' \<mapsto> ''lib.rs'', ''file_type'' \<mapsto> ''.rs'',
                   ''content_type'' \<mapsto> ''source''] \<rparr>"

definition long_chunk :: document where
  "long_chunk = \<lparr> page_content = replicate 250 (CHR ''x''), metadata = Map.empty \<rparr>"

definition bare_chunk :: document where
  "bare_chunk = \<lparr> page_content = ''fn main() {}'', metadata = Map.empty \<rparr>"

definition ready_object :: "document list \<Rightarrow> unit rag_system" where
  "ready_object docs =
     \<lparr> kb_path = ''kb/cleaned'', persist_dir = ''./vectorstore_openrouter'',
       model_name = ''anthropic/claude-3.5-sonnet'', vectorstore = Some (),
       qa_chain = Some (\<lambda>q. Inr \<lparr> result = ''See the context.'', source_documents = docs \<rparr>) \<rparr>"

definition demo_object :: "(document list) rag_system" where
  "demo_object =
     new_object ''kb/cleaned'' ''./vectorstore_openrouter'' ''anthropic/claude-3.5-sonnet''"

text \<open>\<open>token_doc\<close> as the loader's loop leaves it.\<close>

definition token_doc_loaded :: document where
  "token_doc_loaded =
     token_doc\<lparr>metadata := (metadata token_doc)
       (''file_type'' \<mapsto> ''.md'',
        ''filename'' \<mapsto> ''example_token.md'',
        ''directory'' \<mapsto> ''docs'',
        ''content_type'' \<mapsto> ''example'')\<rparr>"

subsection \<open>Properties of ask\<close>

lemma add_sources_sources:
  "sources (add_sources resp docs) = sources resp @ map make_source_info docs"
  by (induction docs arbitrary: resp) simp_all

lemma add_sources_answer: "answer (add_sources resp docs) = answer resp"
  by (induction docs arbitrary: resp) simp_all

lemma add_sources_question: "question (add_sources resp docs) = question resp"
  by (induction docs arbitrary: resp) simp_all

lemma ask_ready:
  assumes "qa_chain self = Some chain" and "chain q = Inr res"
  shows "\<exists>r. ask self q = Inr r \<and> question r = q \<and> answer r = result res
           \<and> sources r = map make_source_info (source_documents res)"
  using assms
  by (simp add: ask_def add_sources_sources add_sources_answer add_sources_question)


lemma make_source_info_filename_unknown:
  "metadata d ''filename'' = None \<Longrightarrow> filename (make_source_info d) = ''Unknown''"
  by (simp add: make_source_info_def dict_get_def)

lemma make_source_info_file_type_unknown:
  "metadata d ''file_type'' = None \<Longrightarrow> file_type (make_source_info d) = ''Unknown''"
  by (simp add: make_source_info_def dict_get_def)

lemma make_source_info_content_type_unknown:
  "metadata d ''content_type'' = None \<Longrightarrow> content_type (make_source_info d) = ''Unknown''"
  by (simp add: make_source_info_def dict_get_def)

lemma make_source_info_filename_some:
  "metadata d ''filename'' = Some f \<Longrightarrow> filename (make_source_info d) = f"
  by (simp add: make_source_info_def dict_get_def)

lemma make_source_info_filename_same:
  "metadata d ''filename'' = metadata d' ''filename''
     \<Longrightarrow> filename (make_source_info d) = filename (make_source_info d')"
  by (simp add: make_source_info_def dict_get_def)

text \<open>
  C7: for an \<open>ask\<close> call whose chain returns the chunks \<open>c1..cn\<close>, the response holds
  exactly one citation per chunk, the \<open>i\<close>-th citation made from the \<open>i\<close>-th chunk; its
  snippet is the whole text when the text has at most 200 characters, and otherwise
  the first 200 characters of the text followed by three dots.
\<close>

theorem ask_one_citation_per_chunk:
  assumes "qa_chain self = Some chain" and "chain q = Inr res"
  shows "\<exists>r. ask self q = Inr r
           \<and> length (sources r) = length (source_documents res)
           \<and> (\<forall>i < length (source_documents res).
                 sources r ! i = make_source_info (source_documents res ! i)
                 \<and> (length (page_content (source_documents res ! i)) \<le> 200 \<longrightarrow>
                      snippet (sources r ! i) = page_content (source_documents res ! i))
                 \<and> (200 < length (page_content (source_documents res ! i)) \<longrightarrow>
                      snippet (sources r ! i)
                        = take 200 (page_content (source_documents res ! i)) @ ''...''
                      \<and> prefix (take 200 (page_content (source_documents res ! i)))
                           (page_content (source_documents res ! i))
                      \<and> length (take 200 (page_content (source_documents res ! i))) = 200))"
proof -
  from ask_ready[OF assms] obtain r where r: "ask self q = Inr r"
    and src: "sources r = map make_source_info (source_documents res)"
    by blast
  have short: "length (page_content d) \<le> 200 \<Longrightarrow> snippet (make_source_info d) = page_content d"
    for d by (simp add: make_source_info_def)
  have long: "200 < length (page_content d) \<Longrightarrow>
                snippet (make_source_info d) = take 200 (page_content d) @ ''...''"
    for d by (simp add: make_source_info_def)
  have "\<forall>i < length (source_documents res).
          sources r ! i = make_source_info (source_documents res ! i)
          \<and> (length (page_content (source_documents res ! i)) \<le> 200 \<longrightarrow>
               snippet (sources r ! i) = page_content (source_documents res ! i))
          \<and> (200 < length (page_content (source_documents res ! i)) \<longrightarrow>
               snippet (sources r ! i)
                 = take 200 (page_content (source_documents res ! i)) @ ''...''
               \<and> prefix (take 200 (page_content (source_documents res ! i)))
                    (page_content (source_documents res ! i))
               \<and> length (take 200 (page_content (source_documents res ! i))) = 200)"
  proof (intro allI impI)
    fix i assume i: "i < length (source_documents res)"
    then have "sources r ! i = make_source_info (source_documents res ! i)"
      by (simp add: src)
    then show "sources r ! i = make_source_info (source_documents res ! i)
          \<and> (length (page_content (source_documents res ! i)) \<le> 200 \<longrightarrow>
               snippet (sources r ! i) = page_content (source_documents res ! i))
          \<and> (200 < length (page_content (source_documents res ! i)) \<longrightarrow>
               snippet (sources r ! i)
                 = take 200 (page_content (source_documents res ! i)) @ ''...''
               \<and> prefix (take 200 (page_content (source_documents res ! i)))
                    (page_content (source_documents res ! i))
               \<and> length (take 200 (page_content (source_documents res ! i))) = 200)"
      using short long by (simp add: take_is_prefix)
  qed
  moreover have "length (sources r) = length (source_documents res)"
    by (simp add: src)
  ultimately show ?thesis using r by blast
qed

theorem ask_one_citation_per_chunk_witness:
  "\<exists>r. ask (ready_object [prelude_chunk, long_chunk]) ''How do I declare a blueprint?'' = Inr r
       \<and> length (sources r) = 2
       \<and> snippet (sources r ! 0) = ''use scrypto::prelude::*;''
       \<and> snippet (sources r ! 1) = replicate 200 (CHR ''x'') @ ''...''"
proof -
  have c: "qa_chain (ready_object [prelude_chunk, long_chunk])
             = Some (\<lambda>q. Inr \<lparr> result = ''See the context.'',
                               source_documents = [prelude_chunk, long_chunk] \<rparr>)"
    by (simp add: ready_object_def)
  from ask_one_citation_per_chunk[OF c refl, of "''How do I declare a blueprint?''"]
  obtain r where r: "ask (ready_object [prelude_chunk, long_chunk])
                       ''How do I declare a blueprint?'' = Inr r"
    and n: "length (sources r) = 2"
    and s0: "sources r ! 0 = make_source_info prelude_chunk"
    and s1: "sources r ! 1 = make_source_info long_chunk"
    by (auto simp: nth_Cons')
  have "snippet (make_source_info prelude_chunk) = ''use scrypto::prelude::*;''"
    by (simp add: make_source_info_def prelude_chunk_def)
  moreover have "snippet (make_source_info long_chunk) = replicate 200 (CHR ''x'') @ ''...''"
    by (simp add: make_source_info_def long_chunk_def)
  ultimately show ?thesis using r n s0 s1 by (intro exI[of _ r]) simp
qed

text \<open>
  C10: a retrieved chunk whose metadata has no \<open>filename\<close>, \<open>file_type\<close> or
  \<open>content_type\<close> entry still gets its citation, with \<open>Unknown\<close> in each field whose
  entry is missing; \<open>ask\<close> returns the response and raises nothing.
\<close>

theorem ask_missing_metadata_unknown:
  assumes "qa_chain self = Some chain" and "chain q = Inr res"
    and "i < length (source_documents res)"
  shows "\<exists>r. ask self q = Inr r
           \<and> length (sources r) = length (source_documents res)
           \<and> (metadata (source_documents res ! i) ''filename'' = None \<longrightarrow>
                filename (sources r ! i) = ''Unknown'')
           \<and> (metadata (source_documents res ! i) ''file_type'' = None \<longrightarrow>
                file_type (sources r ! i) = ''Unknown'')
           \<and> (metadata (source_documents res ! i) ''content_type'' = None \<longrightarrow>
                content_type (sources r ! i) = ''Unknown'')"
proof -
  from ask_ready[OF assms(1,2)] obtain r where r: "ask self q = Inr r"
    and src: "sources r = map make_source_info (source_documents res)"
    by blast
  from assms(3) have nth: "sources r ! i = make_source_info (source_documents res ! i)"
    by (simp add: src)
  have len: "length (sources r) = length (source_documents res)"
    by (simp add: src)
  have f1: "metadata (source_documents res ! i) ''filename'' = None \<longrightarrow>
              filename (sources r ! i) = ''Unknown''"
    unfolding nth by (rule impI) (rule make_source_info_filename_unknown)
  have f2: "metadata (source_documents res ! i) ''file_type'' = None \<longrightarrow>
              file_type (sources r ! i) = ''Unknown''"
    unfolding nth by (rule impI) (rule make_source_info_file_type_unknown)
  have f3: "metadata (source_documents res ! i) ''content_type'' = None \<longrightarrow>
              content_type (sources r ! i) = ''Unknown''"
    unfolding nth by (rule impI) (rule make_source_info_content_type_unknown)
  from r len f1 f2 f3 show ?thesis
    by (intro exI[of _ r] conjI)
qed

theorem ask_missing_metadata_unknown_witness:
  "\<exists>r. ask (ready_object [bare_chunk]) ''What are badges?'' = Inr r
       \<and> length (sources r) = 1
       \<and> filename (sources r ! 0) = ''Unknown''
       \<and> file_type (sources r ! 0) = ''Unknown''
       \<and> content_type (sources r ! 0) = ''Unknown''"
proof -
  have c: "qa_chain (ready_object [bare_chunk])
             = Some (\<lambda>q. Inr \<lparr> result = ''See the context.'', source_documents = [bare_chunk] \<rparr>)"
    by (simp add: ready_object_def)
  have i: "0 < length (source_documents
                         \<lparr> result = ''See the context.'', source_documents = [bare_chunk] \<rparr>)"
    by simp
  have m: "metadata ([bare_chunk] ! 0) k = None" for k
    by (simp add: bare_chunk_def)
  from ask_missing_metadata_unknown[OF c refl i, of "''What are badges?''"]
  obtain r where "ask (ready_object [bare_chunk]) ''What are badges?'' = Inr r"
    and "length (sources r) = 1"
    and "filename (sources r ! 0) = ''Unknown''"
    and "file_type (sources r ! 0) = ''Unknown''"
    and "content_type (sources r ! 0) = ''Unknown''"
    unfolding qa_result.simps m by auto
  then show ?thesis by blast
qed

text \<open>
  C9: as long as \<open>qa_chain\<close> is unset, \<open>ask\<close> raises the \<open>RuntimeError\<close> "QA chain not
  initialized" and returns no response. \<open>qa_chain\<close> is unset from the first lines of
  the constructor until \<open>setup_qa_chain\<close> has stored the chain (lemmas
  \<open>new_object_not_ready\<close>, \<open>setup_vectorstore_keeps_qa_chain\<close>), which is the last
  step of the construction.
\<close>

theorem ask_before_ready:
  assumes "qa_chain self = None"
  shows "ask self q = Inl (RuntimeError ''QA chain not initialized'')"
  using assms by (simp add: ask_def)

theorem ask_before_ready_witness:
  "qa_chain (demo_object) = None
   \<and> ask demo_object ''How do I declare a blueprint?''
       = Inl (RuntimeError ''QA chain not initialized'')"
proof -
  have n: "qa_chain demo_object = None"
    by (simp add: demo_object_def new_object_def)
  from n ask_before_ready[OF n] show ?thesis by simp
qed

text \<open>
  C3, as amended: the response carries the chain's answer and one citation for every
  retrieved chunk, duplicates included: the citations are as many as the chunks, the
  citation of a chunk with a \<open>filename\<close> entry carries that filename, and so two
  chunks with the same \<open>filename\<close> entry give two citations with that filename.
\<close>

theorem ask_keeps_every_citation:
  assumes "qa_chain self = Some chain" and "chain q = Inr res"
  shows "\<exists>r. ask self q = Inr r
           \<and> question r = q
           \<and> answer r = result res
           \<and> length (sources r) = length (source_documents res)
           \<and> (\<forall>i f. i < length (source_documents res)
                  \<and> metadata (source_documents res ! i) ''filename'' = Some f
                \<longrightarrow> filename (sources r ! i) = f)
           \<and> (\<forall>i j f. i < j \<and> j < length (source_documents res)
                  \<and> metadata (source_documents res ! i) ''filename'' = Some f
                  \<and> metadata (source_documents res ! j) ''filename'' = Some f
                \<longrightarrow> filename (sources r ! i) = f \<and> filename (sources r ! j) = f)
           \<and> (\<forall>i j. i < j \<and> j < length (source_documents res)
                  \<and> metadata (source_documents res ! i) ''filename''
                      = metadata (source_documents res ! j) ''filename''
                \<longrightarrow> filename (sources r ! i) = filename (sources r ! j))"
proof -
  from ask_ready[OF assms] obtain r where r: "ask self q = Inr r"
    and qa: "question r = q" "answer r = result res"
    and src: "sources r = map make_source_info (source_documents res)"
    by blast
  have nth: "sources r ! i = make_source_info (source_documents res ! i)"
    if "i < length (source_documents res)" for i
    using that by (simp add: src)
  have one: "\<forall>i f. i < length (source_documents res)
                  \<and> metadata (source_documents res ! i) ''filename'' = Some f
                \<longrightarrow> filename (sources r ! i) = f"
  proof (intro allI impI)
    fix i f
    assume a: "i < length (source_documents res)
                 \<and> metadata (source_documents res ! i) ''filename'' = Some f"
    then have "filename (make_source_info (source_documents res ! i)) = f"
      by (intro make_source_info_filename_some) (rule conjunct2)
    with a show "filename (sources r ! i) = f"
      by (simp only: nth)
  qed
  have two: "\<forall>i j f. i < j \<and> j < length (source_documents res)
                  \<and> metadata (source_documents res ! i) ''filename'' = Some f
                  \<and> metadata (source_documents res ! j) ''filename'' = Some f
                \<longrightarrow> filename (sources r ! i) = f \<and> filename (sources r ! j) = f"
  proof (intro allI impI)
    fix i j f
    assume a: "i < j \<and> j < length (source_documents res)
                  \<and> metadata (source_documents res ! i) ''filename'' = Some f
                  \<and> metadata (source_documents res ! j) ''filename'' = Some f"
    then have i: "i < length (source_documents res)" and j: "j < length (source_documents res)"
      by simp_all
    from a i one have "filename (sources r ! i) = f" by blast
    moreover from a j one have "filename (sources r ! j) = f" by blast
    ultimately show "filename (sources r ! i) = f \<and> filename (sources r ! j) = f" ..
  qed
  have same: "\<forall>i j. i < j \<and> j < length (source_documents res)
                  \<and> metadata (source_documents res ! i) ''filename''
                      = metadata (source_documents res ! j) ''filename''
                \<longrightarrow> filename (sources r ! i) = filename (sources r ! j)"
  proof (intro allI impI)
    fix i j
    assume a: "i < j \<and> j < length (source_documents res)
                  \<and> metadata (source_documents res ! i) ''filename''
                      = metadata (source_documents res ! j) ''filename''"
    then have i: "i < length (source_documents res)" and j: "j < length (source_documents res)"
      by simp_all
    from a have "filename (make_source_info (source_documents res ! i))
                   = filename (make_source_info (source_documents res ! j))"
      by (intro make_source_info_filename_same) simp
    then show "filename (sources r ! i) = filename (sources r ! j)"
      by (simp only: nth[OF i] nth[OF j])
  qed
  have len: "length (sources r) = length (source_documents res)"
    by (simp add: src)
  from r qa len one two same show ?thesis
    by (intro exI[of _ r] conjI)
qed

theorem ask_keeps_every_citation_witness:
  "\<exists>r. ask (ready_object [prelude_chunk, prelude_chunk]) ''What is a blueprint?'' = Inr r
       \<and> answer r = ''See the context.''
       \<and> length (sources r) = 2
       \<and> filename (sources r ! 0) = ''lib.rs''
       \<and> filename (sources r ! 1) = ''lib.rs''
       \<and> filename (sources r ! 0) = filename (sources r ! 1)"
proof -
  have c: "qa_chain (ready_object [prelude_chunk, prelude_chunk])
             = Some (\<lambda>q. Inr \<lparr> result = ''See the context.'',
                               source_documents = [prelude_chunk, prelude_chunk] \<rparr>)"
    by (simp add: ready_object_def)
  have m: "metadata ([prelude_chunk, prelude_chunk] ! i) ''filename'' = Some ''lib.rs''"
    if "i < 2" for i
    using that by (cases i) (simp_all add: prelude_chunk_def)
  from ask_keeps_every_citation[OF c refl, of "''What is a blueprint?''"]
  obtain r where r: "ask (ready_object [prelude_chunk, prelude_chunk]) ''What is a blueprint?'' = Inr r"
    and a: "answer r = ''See the context.''" and n: "length (sources r) = 2"
    and one: "\<forall>i f. i < length [prelude_chunk, prelude_chunk]
                  \<and> metadata ([prelude_chunk, prelude_chunk] ! i) ''filename'' = Some f
                \<longrightarrow> filename (sources r ! i) = f"
    and two: "\<forall>i j f. i < j \<and> j < length [prelude_chunk, prelude_chunk]
                  \<and> metadata ([prelude_chunk, prelude_chunk] ! i) ''filename'' = Some f
                  \<and> metadata ([prelude_chunk, prelude_chunk] ! j) ''filename'' = Some f
                \<longrightarrow> filename (sources r ! i) = f \<and> filename (sources r ! j) = f"
    and same: "\<forall>i j. i < j \<and> j < length [prelude_chunk, prelude_chunk]
                  \<and> metadata ([prelude_chunk, prelude_chunk] ! i) ''filename''
                      = metadata ([prelude_chunk, prelude_chunk] ! j) ''filename''
                \<longrightarrow> filename (sources r ! i) = filename (sources r ! j)"
    unfolding qa_result.simps by auto
  have m0: "metadata ([prelude_chunk, prelude_chunk] ! 0) ''filename'' = Some ''lib.rs''"
    by (rule m) simp
  have m1: "metadata ([prelude_chunk, prelude_chunk] ! 1) ''filename'' = Some ''lib.rs''"
    by (rule m) simp
  from one[rule_format, of 0 "''lib.rs''"] m0
  have f0: "filename (sources r ! 0) = ''lib.rs''" by simp
  from two[rule_format, of 0 1 "''lib.rs''"] m0 m1
  have f1: "filename (sources r ! 1) = ''lib.rs''" by simp
  from same[rule_format, of 0 1] m0 m1
  have e: "filename (sources r ! 0) = filename (sources r ! 1)" by simp
  from r a n f0 f1 e show ?thesis by (intro exI[of _ r] conjI)
qed

text \<open>
  C3 as stated fails: when the chain returns the same chunk of \<open>lib.rs\<close> twice, the
  response lists the same citation twice.
\<close>

theorem ask_dedup_counterexample:
  "ask (ready_object [prelude_chunk, prelude_chunk]) ''What is a blueprint?''
     = Inr \<lparr> question = ''What is a blueprint?'', answer = ''See the context.'',
             sources = [\<lparr> filename = ''lib.rs'', file_type = ''.rs'', content_type = ''source'',
                          snippet = ''use scrypto::prelude::*;'' \<rparr>,
                        \<lparr> filename = ''lib.rs'', file_type = ''.rs'', content_type = ''source'',
                          snippet = ''use scrypto::prelude::*;'' \<rparr>] \<rparr>"
  by (simp add: ask_def ready_object_def make_source_info_def dict_get_def prelude_chunk_def)

subsection \<open>Properties of the loader\<close>

text \<open>\<open>str_contains\<close> is the contiguous-sublist relation of the library.\<close>

lemma str_contains_sublist: "str_contains needle hay \<longleftrightarrow> sublist needle hay"
  by (induction hay) (simp_all add: sublist_Cons_right)

lemma split_on_head_tail:
  "split_on sep xs = seg # segs \<Longrightarrow> prefix seg xs \<and> (\<forall>t \<in> set segs. sublist t xs)"
proof (induction xs arbitrary: seg segs)
  case Nil
  then show ?case by simp
next
  case (Cons c cs)
  show ?case
  proof (cases "c = sep")
    case True
    with Cons.prems have seg: "seg = []" and segs: "segs = split_on sep cs" by simp_all
    obtain s ss where s: "split_on sep cs = s # ss"
      by (cases "split_on sep cs") (cases cs; simp split: if_splits list.splits)+
    from Cons.IH[OF s] have "prefix s cs" and "\<forall>t \<in> set ss. sublist t cs" by simp_all
    then have "\<forall>t \<in> set segs. sublist t (c # cs)"
      using segs s by (auto simp: sublist_Cons_right)
    with seg show ?thesis by simp
  next
    case False
    obtain s ss where s: "split_on sep cs = s # ss"
      by (cases "split_on sep cs") (cases cs; simp split: if_splits list.splits)+
    from Cons.IH[OF s] have p: "prefix s cs" and t: "\<forall>t \<in> set ss. sublist t cs" by simp_all
    from Cons.prems False s have "seg = c # s" and "segs = ss" by simp_all
    with p t show ?thesis by (auto simp: sublist_Cons_right)
  qed
qed

lemma split_on_sublist: "seg \<in> set (split_on sep xs) \<Longrightarrow> sublist seg xs"
proof (cases "split_on sep xs")
  case Nil
  then show "seg \<in> set (split_on sep xs) \<Longrightarrow> sublist seg xs" by simp
next
  case (Cons s ss)
  assume "seg \<in> set (split_on sep xs)"
  with Cons split_on_head_tail[OF Cons] show "sublist seg xs"
    by (auto intro: prefix_imp_sublist)
qed

lemma examples_segment_contains:
  assumes "''examples'' \<in> set (spec_path_segments p)"
  shows "str_contains ''example'' (lower p)"
proof -
  from assms have "sublist ''examples'' p"
    unfolding spec_path_segments_def by (rule split_on_sublist)
  then have "sublist (lower ''examples'') (lower p)"
    unfolding lower_def by (rule map_mono_sublist)
  moreover have "lower ''examples'' = ''examples''"
    by (simp add: lower_def lower_char_def)
  moreover have "sublist ''example'' ''examples''"
    by (simp add: sublist_Cons_right)
  ultimately have "sublist ''example'' (lower p)"
    using sublist_order.order_trans by fastforce
  then show ?thesis by (simp add: str_contains_sublist)
qed

lemma add_metadata_all_member:
  "add_metadata_all ds = Inr ds' \<Longrightarrow> d' \<in> set ds' \<Longrightarrow> \<exists>d \<in> set ds. add_metadata d = Inr d'"
proof (induction ds arbitrary: ds')
  case Nil
  then show ?case by simp
next
  case (Cons d ds)
  then show ?case by (auto split: sum.splits)
qed

lemma add_metadata_content_type:
  assumes "add_metadata d = Inr d'"
  shows "\<exists>file_path. metadata d' ''source'' = Some file_path
           \<and> metadata d' ''content_type'' = Some (content_type_of file_path)"
proof (cases "metadata d ''source''")
  case None
  with assms show ?thesis by (simp add: add_metadata_def)
next
  case (Some file_path)
  with assms have "d' = d\<lparr>metadata := (metadata d)
                 (''file_type'' \<mapsto> path_suffix file_path,
                  ''filename'' \<mapsto> path_name file_path,
                  ''directory'' \<mapsto> path_name (path_parent file_path),
                  ''content_type'' \<mapsto> content_type_of file_path)\<rparr>"
    by (simp add: add_metadata_def)
  with Some show ?thesis by simp
qed

lemma content_type_of_sublist:
  "content_type_of file_path =
     (if sublist ''example'' (lower file_path) then ''example''
      else if sublist ''src'' (lower file_path) then ''source''
      else if path_suffix file_path = ''.md'' then ''documentation''
      else ''code'')"
  unfolding content_type_of_def str_contains_sublist by (rule refl)

lemma content_type_of_examples_segment:
  "''examples'' \<in> set (spec_path_segments file_path) \<Longrightarrow> content_type_of file_path = ''example''"
  unfolding content_type_of_def by (simp only: examples_segment_contains if_True)

lemma demo_load_token_doc:
  "load_documents (demo_env paths key [token_doc] persisted) demo_object = Inr [token_doc_loaded]"
proof -
  have n: "path_name ''kb/cleaned/docs/example_token.md'' = ''example_token.md''"
    by (simp add: path_name_def)
  have s: "path_suffix ''kb/cleaned/docs/example_token.md'' = ''.md''"
    by (simp add: path_suffix_def n)
  have d: "path_name (path_parent ''kb/cleaned/docs/example_token.md'') = ''docs''"
    by (simp add: path_name_def path_parent_def)
  have c: "content_type_of ''kb/cleaned/docs/example_token.md'' = ''example''"
    by (simp add: content_type_of_def lower_def lower_char_def)
  have "add_metadata token_doc = Inr token_doc_loaded"
    by (simp add: add_metadata_def token_doc_def token_doc_loaded_def n s d c)
  then show ?thesis
    by (simp add: load_documents_def demo_env_def)
qed

lemma demo_load_readme_doc:
  "\<exists>loaded. load_documents (demo_env paths key [readme_doc] persisted) demo_object = Inr [loaded]
      \<and> metadata loaded ''source'' = Some ''kb/cleaned/examples/src/README.md''"
proof -
  have "\<exists>loaded. add_metadata readme_doc = Inr loaded
          \<and> metadata loaded ''source'' = Some ''kb/cleaned/examples/src/README.md''"
    by (simp add: add_metadata_def readme_doc_def)
  then show ?thesis
    by (auto simp: load_documents_def demo_env_def)
qed

text \<open>
  C4, as amended: every loaded document keeps its \<open>source\<close> path and gets its
  \<open>content_type\<close> by a fixed precedence on the lower-cased text of the whole path: if
  the text contains \<open>example\<close> anywhere, \<open>example\<close>; otherwise if it contains \<open>src\<close>
  anywhere, \<open>source\<close>; otherwise if the suffix of the file name is \<open>.md\<close>,
  \<open>documentation\<close>; otherwise \<open>code\<close>. In particular a path with an \<open>examples\<close>
  segment gets \<open>example\<close>.
\<close>

theorem load_documents_content_type:
  assumes "load_documents env self = Inr docs" and "doc \<in> set docs"
  shows "\<exists>file_path. metadata doc ''source'' = Some file_path
           \<and> metadata doc ''content_type'' = Some
                (if sublist ''example'' (lower file_path) then ''example''
                 else if sublist ''src'' (lower file_path) then ''source''
                 else if path_suffix file_path = ''.md'' then ''documentation''
                 else ''code'')
           \<and> (''examples'' \<in> set (spec_path_segments file_path)
                \<longrightarrow> metadata doc ''content_type'' = Some ''example'')"
proof -
  from assms(1) obtain all_docs where "add_metadata_all all_docs = Inr docs"
    unfolding load_documents_def Let_def by blast
  with assms(2) obtain d where "add_metadata d = Inr doc"
    using add_metadata_all_member by blast
  then obtain file_path where src: "metadata doc ''source'' = Some file_path"
    and ct: "metadata doc ''content_type'' = Some (content_type_of file_path)"
    using add_metadata_content_type by blast
  from ct have c1: "metadata doc ''content_type'' = Some
                (if sublist ''example'' (lower file_path) then ''example''
                 else if sublist ''src'' (lower file_path) then ''source''
                 else if path_suffix file_path = ''.md'' then ''documentation''
                 else ''code'')"
    by (simp only: content_type_of_sublist)
  have c2: "''examples'' \<in> set (spec_path_segments file_path)
                \<longrightarrow> metadata doc ''content_type'' = Some ''example''"
  proof
    assume "''examples'' \<in> set (spec_path_segments file_path)"
    then have "content_type_of file_path = ''example''"
      by (rule content_type_of_examples_segment)
    with ct show "metadata doc ''content_type'' = Some ''example''"
      by (simp only:)
  qed
  from src c1 c2 show ?thesis by blast
qed

theorem load_documents_content_type_witness:
  "\<exists>loaded. load_documents (demo_env [''kb/cleaned''] (Some ''sk-or-1'') [readme_doc] [])
                demo_object = Inr [loaded]
     \<and> metadata loaded ''source'' = Some ''kb/cleaned/examples/src/README.md''
     \<and> ''examples'' \<in> set (spec_path_segments ''kb/cleaned/examples/src/README.md'')
     \<and> sublist ''src'' (lower ''kb/cleaned/examples/src/README.md'')
     \<and> metadata loaded ''content_type'' = Some ''example''"
proof -
  from demo_load_readme_doc obtain loaded
    where l: "load_documents (demo_env [''kb/cleaned''] (Some ''sk-or-1'') [readme_doc] [])
                demo_object = Inr [loaded]"
      and s: "metadata loaded ''source'' = Some ''kb/cleaned/examples/src/README.md''"
    by blast
  have m: "loaded \<in> set [loaded]"
    by simp
  have seg: "''examples'' \<in> set (spec_path_segments ''kb/cleaned/examples/src/README.md'')"
    by (simp add: spec_path_segments_def)
  have src: "sublist ''src'' (lower ''kb/cleaned/examples/src/README.md'')"
    by (simp add: lower_def lower_char_def sublist_Cons_right)
  from load_documents_content_type[OF l m] obtain file_path
    where f: "metadata loaded ''source'' = Some file_path"
      and i: "''examples'' \<in> set (spec_path_segments file_path)
                \<longrightarrow> metadata loaded ''content_type'' = Some ''example''"
    by blast
  from f s have "file_path = ''kb/cleaned/examples/src/README.md''"
    by simp
  with i seg have "metadata loaded ''content_type'' = Some ''example''"
    by blast
  with l s seg src show ?thesis by blast
qed

text \<open>
  C4 as stated fails: the markdown file \<open>kb/cleaned/docs/example_token.md\<close> has no
  \<open>examples\<close> segment and no \<open>src\<close> segment, so the precedence by segments gives
  \<open>documentation\<close>; the loader gives \<open>example\<close>, since the file name contains the word.
\<close>

theorem load_documents_content_type_counterexample:
  "load_documents (demo_env [''kb/cleaned''] (Some ''sk-or-1'') [token_doc] []) demo_object
     = Inr [token_doc_loaded]
   \<and> metadata token_doc_loaded ''source'' = Some ''kb/cleaned/docs/example_token.md''
   \<and> metadata token_doc_loaded ''content_type'' = Some ''example''
   \<and> spec_content_category ''kb/cleaned/docs/example_token.md'' = ''documentation''"
proof -
  have "spec_content_category ''kb/cleaned/docs/example_token.md'' = ''documentation''"
    by (simp add: spec_content_category_def spec_path_segments_def suffix_def)
  moreover have "metadata token_doc_loaded ''source'' = Some ''kb/cleaned/docs/example_token.md''"
    by (simp add: token_doc_loaded_def token_doc_def)
  moreover have "metadata token_doc_loaded ''content_type'' = Some ''example''"
    by (simp add: token_doc_loaded_def)
  ultimately show ?thesis using demo_load_token_doc by (intro conjI)
qed

subsection \<open>Properties of the constructor\<close>

lemma new_object_not_ready: "qa_chain (new_object kb pd name) = None"
  by (simp add: new_object_def)

lemma setup_vectorstore_keeps_qa_chain:
  assumes "setup_vectorstore env self = (Inr self', calls)"
  shows "qa_chain self' = qa_chain self"
  using assms
  by (auto simp: setup_vectorstore_def Let_def split: if_splits sum.splits)

lemma setup_vectorstore_sets_store:
  assumes "setup_vectorstore env self = (Inr self', calls)"
  shows "vectorstore self' \<noteq> None"
  using assms
  by (auto simp: setup_vectorstore_def Let_def split: if_splits sum.splits)

lemma init_ready:
  assumes "RadixRAGSystemOpenRouter_init env kb pd name = (Inr self, calls)"
  shows "qa_chain self \<noteq> None"
  using assms
  by (auto simp: RadixRAGSystemOpenRouter_init_def Let_def setup_qa_chain_def
           split: if_splits sum.splits option.splits prod.splits)

lemma setup_vectorstore_build_calls:
  assumes "ChromaFromDocuments splits dir \<in> set (snd (setup_vectorstore env self))"
  shows "\<not> exists_path env (persist_dir self)"
  using assms
  by (auto simp: setup_vectorstore_def Let_def split: if_splits sum.splits)

lemma init_calls:
  "snd (RadixRAGSystemOpenRouter_init env kb pd name) = []
   \<or> snd (RadixRAGSystemOpenRouter_init env kb pd name)
       = snd (setup_vectorstore env (new_object kb pd name))"
  by (auto simp: RadixRAGSystemOpenRouter_init_def Let_def split: sum.splits prod.splits)

text \<open>
  C5: when the persist directory exists, \<open>setup_vectorstore\<close> opens the stored index
  and makes no other call on the vector store, so no chunk is embedded; the
  constructor, given the knowledge-base directory and the API key, then returns the
  ready object over that index. And a run of \<open>setup_vectorstore\<close>, or of the whole
  constructor, that calls \<open>Chroma.from_documents\<close> (which embeds and stores the
  chunks) is a run in which the persist directory did not exist.
\<close>

theorem startup_prefers_load:
  "(exists_path env (persist_dir self) \<longrightarrow>
      setup_vectorstore env self
        = (Inr (self\<lparr>vectorstore := Some (chroma_open env (persist_dir self))\<rparr>),
           [ChromaInit (persist_dir self)]))
   \<and> (exists_path env kb \<and> getenv env ''OPENROUTER_API_KEY'' = Some key \<and> key \<noteq> []
        \<and> exists_path env pd \<longrightarrow>
      RadixRAGSystemOpenRouter_init env kb pd name
        = (Inr \<lparr> kb_path = kb, persist_dir = pd, model_name = name,
                  vectorstore = Some (chroma_open env pd),
                  qa_chain = Some (retrieval_qa env name 6 (chroma_open env pd)) \<rparr>,
           [ChromaInit pd]))
   \<and> (\<forall>splits dir. ChromaFromDocuments splits dir \<in> set (snd (setup_vectorstore env self))
         \<longrightarrow> \<not> exists_path env (persist_dir self))
   \<and> (\<forall>splits dir.
         ChromaFromDocuments splits dir \<in> set (snd (RadixRAGSystemOpenRouter_init env kb pd name))
         \<longrightarrow> \<not> exists_path env pd)"
proof (intro conjI allI impI)
  assume "exists_path env (persist_dir self)"
  then show "setup_vectorstore env self
        = (Inr (self\<lparr>vectorstore := Some (chroma_open env (persist_dir self))\<rparr>),
           [ChromaInit (persist_dir self)])"
    by (simp add: setup_vectorstore_def)
next
  assume "exists_path env kb \<and> getenv env ''OPENROUTER_API_KEY'' = Some key \<and> key \<noteq> []
        \<and> exists_path env pd"
  then show "RadixRAGSystemOpenRouter_init env kb pd name
        = (Inr \<lparr> kb_path = kb, persist_dir = pd, model_name = name,
                  vectorstore = Some (chroma_open env pd),
                  qa_chain = Some (retrieval_qa env name 6 (chroma_open env pd)) \<rparr>,
           [ChromaInit pd])"
    by (simp add: RadixRAGSystemOpenRouter_init_def Let_def new_object_def
          setup_vectorstore_def setup_qa_chain_def)
next
  fix splits dir
  assume "ChromaFromDocuments splits dir \<in> set (snd (setup_vectorstore env self))"
  then show "\<not> exists_path env (persist_dir self)"
    by (rule setup_vectorstore_build_calls)
next
  fix splits dir
  assume a: "ChromaFromDocuments splits dir
               \<in> set (snd (RadixRAGSystemOpenRouter_init env kb pd name))"
  with init_calls[of env kb pd name]
  have "ChromaFromDocuments splits dir
          \<in> set (snd (setup_vectorstore env (new_object kb pd name :: 'a rag_system)))"
    by auto
  then have "\<not> exists_path env (persist_dir (new_object kb pd name :: 'a rag_system))"
    by (rule setup_vectorstore_build_calls)
  then show "\<not> exists_path env pd"
    by (simp add: new_object_def)
qed

theorem startup_prefers_load_witness:
  "setup_vectorstore
       (demo_env [''kb/cleaned'', ''./vectorstore_openrouter''] (Some ''sk-or-1'')
          [token_doc] [prelude_chunk]) demo_object
     = (Inr (demo_object\<lparr>vectorstore := Some [prelude_chunk]\<rparr>),
        [ChromaInit ''./vectorstore_openrouter''])
   \<and> snd (RadixRAGSystemOpenRouter_init
             (demo_env [''kb/cleaned'', ''./vectorstore_openrouter''] (Some ''sk-or-1'')
                [token_doc] [prelude_chunk])
             ''kb/cleaned'' ''./vectorstore_openrouter'' ''anthropic/claude-3.5-sonnet'')
       = [ChromaInit ''./vectorstore_openrouter'']
   \<and> ChromaFromDocuments [token_doc_loaded] ''./vectorstore_openrouter''
        \<in> set (snd (setup_vectorstore
                      (demo_env [''kb/cleaned''] (Some ''sk-or-1'') [token_doc] []) demo_object))
   \<and> ChromaFromDocuments [token_doc_loaded] ''./vectorstore_openrouter''
        \<in> set (snd (RadixRAGSystemOpenRouter_init
                      (demo_env [''kb/cleaned''] (Some ''sk-or-1'') [token_doc] [])
                      ''kb/cleaned'' ''./vectorstore_openrouter'' ''anthropic/claude-3.5-sonnet''))
   \<and> \<not> exists_path (demo_env [''kb/cleaned''] (Some ''sk-or-1'') [token_doc] [])
          ''./vectorstore_openrouter''"
proof -
  let ?loading = "demo_env [''kb/cleaned'', ''./vectorstore_openrouter''] (Some ''sk-or-1'')
                    [token_doc] [prelude_chunk]"
  let ?building = "demo_env [''kb/cleaned''] (Some ''sk-or-1'') [token_doc] []"
  have pd: "persist_dir demo_object = ''./vectorstore_openrouter''"
    by (simp add: demo_object_def new_object_def)
  have e: "exists_path ?loading (persist_dir demo_object)"
    by (simp add: pd demo_env_def)
  have o: "chroma_open ?loading ''./vectorstore_openrouter'' = [prelude_chunk]"
    by (simp add: demo_env_def)
  have pre: "exists_path ?loading ''kb/cleaned''
               \<and> getenv ?loading ''OPENROUTER_API_KEY'' = Some ''sk-or-1'' \<and> ''sk-or-1'' \<noteq> []
               \<and> exists_path ?loading ''./vectorstore_openrouter''"
    by (simp add: demo_env_def)
  have ne: "\<not> exists_path ?building (persist_dir demo_object)"
    by (simp add: pd demo_env_def)
  have keep: "split_documents ?building n m seps docs = docs" for n m seps docs
    by (simp add: demo_env_def)
  have sb: "setup_vectorstore ?building demo_object
              = (Inr (demo_object\<lparr>vectorstore :=
                        Some (chroma_from_documents ?building [token_doc_loaded]
                                ''./vectorstore_openrouter'')\<rparr>),
                 [ChromaFromDocuments [token_doc_loaded] ''./vectorstore_openrouter'',
                  ChromaPersist])"
    using ne keep by (simp add: setup_vectorstore_def demo_load_token_doc pd Let_def)
  have b: "ChromaFromDocuments [token_doc_loaded] ''./vectorstore_openrouter''
             \<in> set (snd (setup_vectorstore ?building demo_object))"
    by (simp add: sb)
  have kb: "exists_path ?building ''kb/cleaned''"
    "getenv ?building ''OPENROUTER_API_KEY'' = Some ''sk-or-1''"
    by (simp_all add: demo_env_def)
  have ib: "snd (RadixRAGSystemOpenRouter_init ?building
                   ''kb/cleaned'' ''./vectorstore_openrouter'' ''anthropic/claude-3.5-sonnet'')
              = [ChromaFromDocuments [token_doc_loaded] ''./vectorstore_openrouter'',
                 ChromaPersist]"
  proof -
    have k: "kb_path demo_object = ''kb/cleaned''"
      by (simp add: demo_object_def new_object_def)
    have "RadixRAGSystemOpenRouter_init ?building
            ''kb/cleaned'' ''./vectorstore_openrouter'' ''anthropic/claude-3.5-sonnet''
          = (case setup_vectorstore ?building demo_object of
               (Inl e, calls) \<Rightarrow> (Inl e, calls)
             | (Inr self', calls) \<Rightarrow> (setup_qa_chain ?building self', calls))"
      unfolding RadixRAGSystemOpenRouter_init_def Let_def demo_object_def[symmetric]
      using kb k by simp
    then show ?thesis
      by (simp add: sb)
  qed
  have bi: "ChromaFromDocuments [token_doc_loaded] ''./vectorstore_openrouter''
              \<in> set (snd (RadixRAGSystemOpenRouter_init ?building
                   ''kb/cleaned'' ''./vectorstore_openrouter'' ''anthropic/claude-3.5-sonnet''))"
    by (simp add: ib)
  note l = startup_prefers_load[of ?loading demo_object "''kb/cleaned''" "''sk-or-1''"
             "''./vectorstore_openrouter''" "''anthropic/claude-3.5-sonnet''"]
  note c = startup_prefers_load[of ?building demo_object "''kb/cleaned''" "''sk-or-1''"
             "''./vectorstore_openrouter''" "''anthropic/claude-3.5-sonnet''"]
  from l[THEN conjunct1, rule_format, OF e]
  have 1: "setup_vectorstore ?loading demo_object
     = (Inr (demo_object\<lparr>vectorstore := Some [prelude_chunk]\<rparr>),
        [ChromaInit ''./vectorstore_openrouter''])"
    by (simp only: pd o)
  from l[THEN conjunct2, THEN conjunct1, rule_format, OF pre]
  have 2: "snd (RadixRAGSystemOpenRouter_init ?loading
             ''kb/cleaned'' ''./vectorstore_openrouter'' ''anthropic/claude-3.5-sonnet'')
       = [ChromaInit ''./vectorstore_openrouter'']"
    by (simp only: snd_conv)
  from c[THEN conjunct2, THEN conjunct2, THEN conjunct1, rule_format, OF b]
  have 3: "\<not> exists_path ?building (persist_dir demo_object)" .
  from c[THEN conjunct2, THEN conjunct2, THEN conjunct2, rule_format, OF bi]
  have 4: "\<not> exists_path ?building ''./vectorstore_openrouter''" .
  from 1 2 b bi 3 4 show ?thesis by (intro conjI)
qed

text \<open>
  C8, as amended: when the variable \<open>OPENROUTER_API_KEY\<close> is unset, the constructor
  fails before any call on the vector store and returns no object: with \<open>sys.exit(1)\<close>
  when the knowledge-base directory exists, and with \<open>FileNotFoundError\<close> when it does
  not, since that check comes first.
\<close>

theorem init_without_api_key:
  assumes "getenv env ''OPENROUTER_API_KEY'' = None"
  shows "RadixRAGSystemOpenRouter_init env kb pd name
           = (Inl (if exists_path env kb then SystemExit 1
                   else FileNotFoundError (''Knowledge base not found at '' @ kb)), [])"
  using assms by (simp add: RadixRAGSystemOpenRouter_init_def Let_def new_object_def)

theorem init_without_api_key_witness:
  "getenv (demo_env [''kb/cleaned''] None [token_doc] []) ''OPENROUTER_API_KEY'' = None
   \<and> RadixRAGSystemOpenRouter_init (demo_env [''kb/cleaned''] None [token_doc] [])
        ''kb/cleaned'' ''./vectorstore_openrouter'' ''anthropic/claude-3.5-sonnet''
       = (Inl (SystemExit 1), [])"
proof -
  have g: "getenv (demo_env [''kb/cleaned''] None [token_doc] []) ''OPENROUTER_API_KEY'' = None"
    by (simp add: demo_env_def)
  have e: "exists_path (demo_env [''kb/cleaned''] None [token_doc] []) ''kb/cleaned''"
    by (simp add: demo_env_def)
  from init_without_api_key[OF g, of "''kb/cleaned''" "''./vectorstore_openrouter''"
                                    "''anthropic/claude-3.5-sonnet''"] e g
  show ?thesis by (simp only: if_True simp_thms)
qed

text \<open>
  C8 as stated fails: with the key unset and the knowledge-base directory missing, the
  constructor raises \<open>FileNotFoundError\<close>, not the error of the missing credential.
\<close>

theorem init_without_api_key_counterexample:
  "getenv (demo_env [] None [] []) ''OPENROUTER_API_KEY'' = None
   \<and> RadixRAGSystemOpenRouter_init (demo_env [] None [] [])
        ''kb/cleaned'' ''./vectorstore_openrouter'' ''anthropic/claude-3.5-sonnet''
       = (Inl (FileNotFoundError ''Knowledge base not found at kb/cleaned''), [])"
  by (simp add: RadixRAGSystemOpenRouter_init_def demo_env_def new_object_def)

lemma setup_vectorstore_no_documents:
  assumes "\<not> exists_path env (persist_dir self)" and "load_documents env self = Inr []"
  shows "setup_vectorstore env self
           = (Inl (RuntimeError ''No documents found to process!''), [])"
  using assms by (simp add: setup_vectorstore_def)

lemma load_documents_new_object:
  "load_documents env (new_object (kb_path self) pd name) = load_documents env self"
  by (simp add: load_documents_def new_object_def)

lemma init_no_documents:
  assumes "\<not> exists_path env pd" and "load_documents env (new_object kb pd name) = Inr []"
  shows "RadixRAGSystemOpenRouter_init env kb pd name
           = (Inl (if \<not> exists_path env kb
                   then FileNotFoundError (''Knowledge base not found at '' @ kb)
                   else if (case getenv env ''OPENROUTER_API_KEY'' of
                              None \<Rightarrow> True | Some v \<Rightarrow> v = [])
                   then SystemExit 1
                   else RuntimeError ''No documents found to process!''), [])"
proof -
  have p: "\<not> exists_path env (persist_dir (new_object kb pd name :: 'a rag_system))"
    using assms(1) by (simp add: new_object_def)
  have s: "setup_vectorstore env (new_object kb pd name)
             = (Inl (RuntimeError ''No documents found to process!''), [])"
    using p assms(2) by (rule setup_vectorstore_no_documents)
  have k: "kb_path (new_object kb pd name :: 'a rag_system) = kb"
    by (simp add: new_object_def)
  show ?thesis
    unfolding RadixRAGSystemOpenRouter_init_def Let_def k s by simp
qed

text \<open>
  C1, as amended: with no persist directory and a knowledge base of zero documents,
  \<open>setup_vectorstore\<close> raises the \<open>RuntimeError\<close> "No documents found to process!"
  before any call on the vector store, and the constructor returns no object: it ends
  with an exception, which is that \<open>RuntimeError\<close> when the knowledge-base directory
  exists and the API key is set. On an object whose chain returns no source documents
  for the question, \<open>ask\<close> returns the chain's answer with an empty list of sources.
\<close>

theorem empty_knowledge_base:
  assumes "\<not> exists_path env (persist_dir self)" and "load_documents env self = Inr []"
    and "qa_chain self' = Some chain" and "chain q = Inr res" and "source_documents res = []"
  shows "setup_vectorstore env self
           = (Inl (RuntimeError ''No documents found to process!''), [])
         \<and> (\<exists>e. RadixRAGSystemOpenRouter_init env (kb_path self) (persist_dir self)
                   (model_name self) = (Inl e, []))
         \<and> (exists_path env (kb_path self)
              \<and> getenv env ''OPENROUTER_API_KEY'' = Some key \<and> key \<noteq> []
            \<longrightarrow> RadixRAGSystemOpenRouter_init env (kb_path self) (persist_dir self)
                  (model_name self)
                = (Inl (RuntimeError ''No documents found to process!''), []))
         \<and> (\<exists>r. ask self' q = Inr r \<and> answer r = result res \<and> sources r = [])"
proof (intro conjI impI)
  from assms(1,2) show "setup_vectorstore env self
           = (Inl (RuntimeError ''No documents found to process!''), [])"
    by (rule setup_vectorstore_no_documents)
next
  have l: "load_documents env (new_object (kb_path self) (persist_dir self) (model_name self))
             = Inr []"
    using assms(2) by (simp only: load_documents_new_object)
  from init_no_documents[OF assms(1) l]
  show "\<exists>e. RadixRAGSystemOpenRouter_init env (kb_path self) (persist_dir self)
                   (model_name self) = (Inl e, [])"
    by blast
next
  assume a: "exists_path env (kb_path self)
              \<and> getenv env ''OPENROUTER_API_KEY'' = Some key \<and> key \<noteq> []"
  have l: "load_documents env (new_object (kb_path self) (persist_dir self) (model_name self))
             = Inr []"
    using assms(2) by (simp only: load_documents_new_object)
  from init_no_documents[OF assms(1) l] a
  show "RadixRAGSystemOpenRouter_init env (kb_path self) (persist_dir self) (model_name self)
          = (Inl (RuntimeError ''No documents found to process!''), [])"
    by simp
next
  from ask_ready[OF assms(3,4)] assms(5)
  show "\<exists>r. ask self' q = Inr r \<and> answer r = result res \<and> sources r = []"
    by auto
qed

theorem empty_knowledge_base_witness:
  "setup_vectorstore (demo_env [''kb/cleaned''] (Some ''sk-or-1'') [] []) demo_object
       = (Inl (RuntimeError ''No documents found to process!''), [])
   \<and> RadixRAGSystemOpenRouter_init (demo_env [''kb/cleaned''] (Some ''sk-or-1'') [] [])
        ''kb/cleaned'' ''./vectorstore_openrouter'' ''anthropic/claude-3.5-sonnet''
       = (Inl (RuntimeError ''No documents found to process!''), [])
   \<and> (\<exists>r. ask (ready_object []) ''anything'' = Inr r
           \<and> answer r = ''See the context.'' \<and> sources r = [])"
proof -
  let ?env = "demo_env [''kb/cleaned''] (Some ''sk-or-1'') [] []"
  have l: "load_documents ?env demo_object = Inr []"
    by (simp add: load_documents_def demo_env_def)
  have ne: "\<not> exists_path ?env (persist_dir demo_object)"
    by (simp add: demo_env_def demo_object_def new_object_def)
  have c: "qa_chain (ready_object [])
             = Some (\<lambda>q. Inr \<lparr> result = ''See the context.'', source_documents = [] \<rparr>)"
    by (simp add: ready_object_def)
  have d: "source_documents \<lparr> result = ''See the context.'', source_documents = [] \<rparr> = []"
    by simp
  have f: "kb_path demo_object = ''kb/cleaned''"
    "persist_dir demo_object = ''./vectorstore_openrouter''"
    "model_name demo_object = ''anthropic/claude-3.5-sonnet''"
    by (simp_all add: demo_object_def new_object_def)
  have k: "exists_path ?env (kb_path demo_object)
             \<and> getenv ?env ''OPENROUTER_API_KEY'' = Some ''sk-or-1'' \<and> ''sk-or-1'' \<noteq> []"
    by (simp add: f demo_env_def)
  note t = empty_knowledge_base[OF ne l c refl d, of "''sk-or-1''" "''anything''"]
  from t[THEN conjunct1]
  have 1: "setup_vectorstore ?env demo_object
             = (Inl (RuntimeError ''No documents found to process!''), [])" .
  from t[THEN conjunct2, THEN conjunct2, THEN conjunct1, rule_format, OF k]
  have 2: "RadixRAGSystemOpenRouter_init ?env
             ''kb/cleaned'' ''./vectorstore_openrouter'' ''anthropic/claude-3.5-sonnet''
           = (Inl (RuntimeError ''No documents found to process!''), [])"
    by (simp only: f)
  from t[THEN conjunct2, THEN conjunct2, THEN conjunct2]
  have 3: "\<exists>r. ask (ready_object []) ''anything'' = Inr r
           \<and> answer r = ''See the context.'' \<and> sources r = []"
    by simp
  from 1 2 3 show ?thesis by (intro conjI)
qed

text \<open>
  C1 as stated fails: with zero documents under the knowledge base and no persist
  directory, building produces no index; \<open>setup_vectorstore\<close> and the constructor end
  with the \<open>RuntimeError\<close>, so there is no object to ask.
\<close>

theorem empty_knowledge_base_counterexample:
  "load_documents (demo_env [''kb/cleaned''] (Some ''sk-or-1'') [] []) demo_object = Inr []
   \<and> setup_vectorstore (demo_env [''kb/cleaned''] (Some ''sk-or-1'') [] []) demo_object
       = (Inl (RuntimeError ''No documents found to process!''), [])
   \<and> RadixRAGSystemOpenRouter_init (demo_env [''kb/cleaned''] (Some ''sk-or-1'') [] [])
        ''kb/cleaned'' ''./vectorstore_openrouter'' ''anthropic/claude-3.5-sonnet''
       = (Inl (RuntimeError ''No documents found to process!''), [])"
proof -
  have l: "load_documents (demo_env [''kb/cleaned''] (Some ''sk-or-1'') [] []) demo_object = Inr []"
    by (simp add: load_documents_def demo_env_def)
  have ne: "\<not> exists_path (demo_env [''kb/cleaned''] (Some ''sk-or-1'') [] [])
                (persist_dir demo_object)"
    by (simp add: demo_env_def demo_object_def new_object_def)
  have s: "setup_vectorstore (demo_env [''kb/cleaned''] (Some ''sk-or-1'') [] []) demo_object
       = (Inl (RuntimeError ''No documents found to process!''), [])"
    using l ne by (simp add: setup_vectorstore_def)
  have k: "exists_path (demo_env [''kb/cleaned''] (Some ''sk-or-1'') [] []) ''kb/cleaned''"
    "getenv (demo_env [''kb/cleaned''] (Some ''sk-or-1'') [] []) ''OPENROUTER_API_KEY''
       = Some ''sk-or-1''"
    by (simp_all add: demo_env_def)
  have "RadixRAGSystemOpenRouter_init (demo_env [''kb/cleaned''] (Some ''sk-or-1'') [] [])
        ''kb/cleaned'' ''./vectorstore_openrouter'' ''anthropic/claude-3.5-sonnet''
       = (Inl (RuntimeError ''No documents found to process!''), [])"
    using s k
    by (simp add: RadixRAGSystemOpenRouter_init_def Let_def demo_object_def new_object_def)
  with l s show ?thesis by (intro conjI)
qed

end
